theory Spec2Isabelle
  imports Complex_Main
begin

section \<open>Python values\<close>

text \<open>
  A Python float is an IEEE 754 binary64 number: a finite value, one of the two
  infinities, or not-a-number. The sign of zero is not represented.
\<close>

datatype pyfloat = Fin real | PInf | NInf | NaN

text \<open>
  The element universe of a sample: \<open>None\<close>, an unbounded \<open>int\<close>, a \<open>float\<close> or a \<open>str\<close>.
\<close>

datatype pyval = PNone | PInt int | PFloat pyfloat | PStr string

text \<open>The exceptions the two modules raise or meet, each with its message.\<close>

datatype pyerror =
    ValueError string
  | TypeError string
  | OverflowError string
  | ZeroDivisionError string
  | AttributeError string
  | NotImplementedError string

fun message :: "pyerror \<Rightarrow> string" where
  "message (ValueError m) = m"
| "message (TypeError m) = m"
| "message (OverflowError m) = m"
| "message (ZeroDivisionError m) = m"
| "message (AttributeError m) = m"
| "message (NotImplementedError m) = m"

text \<open>The letters outside ASCII that occur in the messages, as UTF-8.\<close>

definition e_acute :: string where
  "e_acute = [CHR 0xC3, CHR 0xA9]"

definition i_acute :: string where
  "i_acute = [CHR 0xC3, CHR 0xAD]"

text \<open>A text between single quotes, as \<open>repr\<close> and the interpreter's messages print it.\<close>

definition quoted :: "string \<Rightarrow> string" where
  "quoted s = [CHR 0x27] @ s @ [CHR 0x27]"

section \<open>Binary64 rounding\<close>

text \<open>Rounding of a real to the nearest integer, ties to the even one.\<close>

definition round_even :: "real \<Rightarrow> int" where
  "round_even q =
     (let f = \<lfloor>q\<rfloor>; d = q - of_int f
      in if d < 1 / 2 then f
         else if 1 / 2 < d then f + 1
         else if even f then f else f + 1)"

text \<open>The least magnitude that is too large for a finite binary64 number.\<close>

definition huge :: real where
  "huge = 2 ^ 1024"

text \<open>
  Rounding of a real to binary64, to nearest, ties to even: 53 significant bits,
  the least exponent is \<open>-1022\<close> (below it the spacing stays \<open>2 powi (-1074)\<close>), and a
  result of magnitude \<open>2 ^ 1024\<close> or more is an infinity.
\<close>

definition rnd :: "real \<Rightarrow> pyfloat" where
  "rnd x =
     (if x = 0 then Fin 0
      else
        let e = max \<lfloor>log 2 \<bar>x\<bar>\<rfloor> (- 1022);
            u = 2 powi (e - 52);
            y = of_int (round_even (x / u)) * u
        in if huge \<le> \<bar>y\<bar> then (if 0 < x then PInf else NInf) else Fin y)"

section \<open>The normalised container\<close>

text \<open>
  \<open>pd.Series\<close> is modelled by the list of its elements in order. Iterating a Series
  yields Python scalars, so the element list is what \<open>sum\<close>, \<open>sorted\<close> and the
  \<open>for\<close> loops of the source see.
\<close>

definition isna :: "pyval \<Rightarrow> bool" where
  "isna v = (v = PNone \<or> v = PFloat NaN)"

definition dropna :: "pyval list \<Rightarrow> pyval list" where
  "dropna xs = filter (\<lambda>v. \<not> isna v) xs"

fun is_str :: "pyval \<Rightarrow> bool" where
  "is_str (PStr s) = True"
| "is_str v = False"

fun is_number :: "pyval \<Rightarrow> bool" where
  "is_number (PInt i) = True"
| "is_number (PFloat f) = True"
| "is_number v = False"

fun is_int64 :: "pyval \<Rightarrow> bool" where
  "is_int64 (PInt i) = (- (2 ^ 63) \<le> i \<and> i < 2 ^ 63)"
| "is_int64 v = True"

fun wants_float :: "pyval \<Rightarrow> bool" where
  "wants_float (PFloat f) = True"
| "wants_float PNone = True"
| "wants_float v = False"

fun to_float64 :: "pyval \<Rightarrow> pyval" where
  "to_float64 PNone = PFloat NaN"
| "to_float64 (PInt i) = PFloat (rnd (of_int i))"
| "to_float64 v = v"

text \<open>
  \<open>pd.Series(datos)\<close> on a list or tuple infers the element type: numbers mixed with
  floats or \<open>None\<close> become \<open>float64\<close> (\<open>None\<close> becomes NaN); a list of integers, a list
  holding a string, and a list of \<open>None\<close> only keep their elements as they are.
\<close>

definition pd_Series :: "pyval list \<Rightarrow> pyval list" where
  "pd_Series xs =
     (if (\<forall>v \<in> set xs. \<not> is_str v) \<and> (\<exists>v \<in> set xs. is_number v)
         \<and> (\<exists>v \<in> set xs. wants_float v) \<and> (\<forall>v \<in> set xs. is_int64 v)
      then map to_float64 xs else xs)"

section \<open>EstadisticaBase: construction\<close>

text \<open>What a caller may pass as \<open>datos\<close>.\<close>

datatype pyinput =
    ArgNone
  | ArgList "pyval list"
  | ArgTuple "pyval list"
  | ArgSeries "pyval list"
  | ArgOther

record EstadisticaBase =
  datos :: "pyval list"
  n_observaciones :: nat

definition msg_vacia :: string where
  "msg_vacia = ''La lista de datos no puede estar vac'' @ i_acute @ ''a.''"

definition msg_formato :: string where
  "msg_formato = ''El formato de datos debe ser lista, tupla o pd.Series.''"

definition new_base :: "pyval list \<Rightarrow> EstadisticaBase" where
  "new_base s = \<lparr>datos = s, n_observaciones = length (dropna s)\<rparr>"

fun init_base :: "pyinput \<Rightarrow> pyerror + EstadisticaBase" where
  "init_base ArgNone = Inl (ValueError msg_vacia)"
| "init_base (ArgList xs) =
     (if xs = [] then Inl (ValueError msg_vacia) else Inr (new_base (pd_Series xs)))"
| "init_base (ArgTuple xs) =
     (if xs = [] then Inl (ValueError msg_vacia) else Inr (new_base (pd_Series xs)))"
| "init_base (ArgSeries s) = Inr (new_base s)"
| "init_base ArgOther = Inl (TypeError msg_formato)"

definition obtener_datos :: "'a EstadisticaBase_scheme \<Rightarrow> pyval list" where
  "obtener_datos self = datos self"

definition obtener_n_observaciones :: "'a EstadisticaBase_scheme \<Rightarrow> nat" where
  "obtener_n_observaciones self = n_observaciones self"

definition contar_datos :: "'a EstadisticaBase_scheme \<Rightarrow> nat" where
  "contar_datos self = length (datos self)"

section \<open>InferenciaEstadistica: construction\<close>

record InferenciaEstadistica = EstadisticaBase +
  n_inf :: nat

definition msg_dos :: string where
  "msg_dos = ''Se requieren al menos 2 observaciones para la inferencia.''"

definition init_inferencia :: "pyinput \<Rightarrow> pyerror + InferenciaEstadistica" where
  "init_inferencia d =
     (case init_base d of
        Inl err \<Rightarrow> Inl err
      | Inr b \<Rightarrow>
          let n = obtener_n_observaciones b
          in if n < 2 then Inl (ValueError msg_dos)
             else Inr (EstadisticaBase.extend b \<lparr>n_inf = n\<rparr>))"

section \<open>Float arithmetic\<close>

text \<open>
  The IEEE operations on floats: the exact result of finite operands is rounded with
  \<open>rnd\<close>; infinities and NaN follow the standard's rules. None of them raises.
\<close>

fun fneg :: "pyfloat \<Rightarrow> pyfloat" where
  "fneg (Fin a) = Fin (- a)"
| "fneg PInf = NInf"
| "fneg NInf = PInf"
| "fneg NaN = NaN"

fun fadd :: "pyfloat \<Rightarrow> pyfloat \<Rightarrow> pyfloat" where
  "fadd (Fin a) (Fin b) = rnd (a + b)"
| "fadd NaN y = NaN"
| "fadd x NaN = NaN"
| "fadd PInf NInf = NaN"
| "fadd NInf PInf = NaN"
| "fadd PInf y = PInf"
| "fadd NInf y = NInf"
| "fadd x PInf = PInf"
| "fadd x NInf = NInf"

definition fsub :: "pyfloat \<Rightarrow> pyfloat \<Rightarrow> pyfloat" where
  "fsub x y = fadd x (fneg y)"

fun fmul :: "pyfloat \<Rightarrow> pyfloat \<Rightarrow> pyfloat" where
  "fmul (Fin a) (Fin b) = rnd (a * b)"
| "fmul NaN y = NaN"
| "fmul x NaN = NaN"
| "fmul (Fin a) PInf = (if a = 0 then NaN else if 0 < a then PInf else NInf)"
| "fmul (Fin a) NInf = (if a = 0 then NaN else if 0 < a then NInf else PInf)"
| "fmul PInf (Fin b) = (if b = 0 then NaN else if 0 < b then PInf else NInf)"
| "fmul NInf (Fin b) = (if b = 0 then NaN else if 0 < b then NInf else PInf)"
| "fmul PInf PInf = PInf"
| "fmul PInf NInf = NInf"
| "fmul NInf PInf = NInf"
| "fmul NInf NInf = PInf"

fun fdiv :: "pyfloat \<Rightarrow> pyfloat \<Rightarrow> pyfloat" where
  "fdiv (Fin a) (Fin b) =
     (if b = 0 then (if a = 0 then NaN else if 0 < a then PInf else NInf)
      else rnd (a / b))"
| "fdiv NaN y = NaN"
| "fdiv x NaN = NaN"
| "fdiv (Fin a) PInf = Fin 0"
| "fdiv (Fin a) NInf = Fin 0"
| "fdiv PInf (Fin b) = (if 0 \<le> b then PInf else NInf)"
| "fdiv NInf (Fin b) = (if 0 \<le> b then NInf else PInf)"
| "fdiv x y = NaN"

text \<open>\<open>np.sqrt\<close>, and \<open>x ** 0.5\<close>, which is taken to be the correctly rounded root.\<close>

fun fsqrt :: "pyfloat \<Rightarrow> pyfloat" where
  "fsqrt (Fin a) = (if a < 0 then NaN else rnd (sqrt a))"
| "fsqrt PInf = PInf"
| "fsqrt NInf = NaN"
| "fsqrt NaN = NaN"

definition isnan :: "pyfloat \<Rightarrow> bool" where
  "isnan f = (f = NaN)"

section \<open>Python arithmetic on values\<close>

fun type_name :: "pyval \<Rightarrow> string" where
  "type_name PNone = ''NoneType''"
| "type_name (PInt i) = ''int''"
| "type_name (PFloat f) = ''float''"
| "type_name (PStr s) = ''str''"

definition unsupported :: "string \<Rightarrow> pyval \<Rightarrow> pyval \<Rightarrow> pyerror" where
  "unsupported opr a b =
     TypeError (''unsupported operand type(s) for '' @ opr @ '': ''
                @ quoted (type_name a) @ '' and '' @ quoted (type_name b))"

text \<open>\<open>float(i)\<close> of an \<open>int\<close>: correctly rounded, and an error when out of range.\<close>

definition float_of_int :: "int \<Rightarrow> pyerror + pyfloat" where
  "float_of_int i =
     (case rnd (of_int i) of
        Fin y \<Rightarrow> Inr (Fin y)
      | _ \<Rightarrow> Inl (OverflowError ''int too large to convert to float''))"

fun py_add :: "pyval \<Rightarrow> pyval \<Rightarrow> pyerror + pyval" where
  "py_add (PInt a) (PInt b) = Inr (PInt (a + b))"
| "py_add (PInt a) (PFloat g) =
     (case float_of_int a of Inl err \<Rightarrow> Inl err | Inr f \<Rightarrow> Inr (PFloat (fadd f g)))"
| "py_add (PFloat f) (PInt b) =
     (case float_of_int b of Inl err \<Rightarrow> Inl err | Inr g \<Rightarrow> Inr (PFloat (fadd f g)))"
| "py_add (PFloat f) (PFloat g) = Inr (PFloat (fadd f g))"
| "py_add (PStr s) (PStr t) = Inr (PStr (s @ t))"
| "py_add a b = Inl (unsupported ''+'' a b)"

text \<open>\<open>valor - media\<close>, where \<open>media\<close> is a float.\<close>

fun py_sub_float :: "pyval \<Rightarrow> pyfloat \<Rightarrow> pyerror + pyfloat" where
  "py_sub_float (PInt a) g =
     (case float_of_int a of Inl err \<Rightarrow> Inl err | Inr f \<Rightarrow> Inr (fsub f g))"
| "py_sub_float (PFloat f) g = Inr (fsub f g)"
| "py_sub_float a g = Inl (unsupported ''-'' a (PFloat g))"

text \<open>\<open>d ** 2\<close> of a Python float: an overflowing power raises.\<close>

definition msg_range :: string where
  "msg_range = ''(34, '' @ quoted ''Numerical result out of range'' @ '')''"

fun py_pow2 :: "pyfloat \<Rightarrow> pyerror + pyfloat" where
  "py_pow2 (Fin a) =
     (case rnd (a * a) of Fin y \<Rightarrow> Inr (Fin y) | _ \<Rightarrow> Inl (OverflowError msg_range))"
| "py_pow2 NaN = Inr NaN"
| "py_pow2 f = Inr PInf"

text \<open>
  \<open>x / n\<close> for a positive \<open>int\<close> \<open>n\<close>: the quotient of two \<open>int\<close>s is rounded once
  from the exact quotient; a float is divided by \<open>float(n)\<close>.
\<close>

fun py_truediv :: "pyval \<Rightarrow> nat \<Rightarrow> pyerror + pyfloat" where
  "py_truediv (PInt a) n =
     (if n = 0 then Inl (ZeroDivisionError ''division by zero'')
      else case rnd (of_int a / of_nat n) of
             Fin y \<Rightarrow> Inr (Fin y)
           | _ \<Rightarrow> Inl (OverflowError ''integer division result too large for a float''))"
| "py_truediv (PFloat f) n =
     (case float_of_int (int n) of
        Inl err \<Rightarrow> Inl err
      | Inr g \<Rightarrow> if n = 0 then Inl (ZeroDivisionError ''float division by zero'')
                else Inr (fdiv f g))"
| "py_truediv a n = Inl (unsupported ''/'' a (PInt (int n)))"

text \<open>
  \<open>sum(f(v) for v in xs)\<close>: the items are produced one at a time and added from the
  left, starting from the \<open>int\<close> 0; the first error ends the sum. This is the plain
  sum; CPython from 3.12 on adds a compensation term to a sum of floats, which the
  model leaves out.
\<close>

fun sum_gen :: "(pyval \<Rightarrow> pyerror + pyval) \<Rightarrow> pyval \<Rightarrow> pyval list \<Rightarrow> pyerror + pyval" where
  "sum_gen f acc [] = Inr acc"
| "sum_gen f acc (v # vs) =
     (case f v of
        Inl err \<Rightarrow> Inl err
      | Inr d \<Rightarrow> (case py_add acc d of Inl err \<Rightarrow> Inl err | Inr a \<Rightarrow> sum_gen f a vs))"

text \<open>Equality of two values as \<open>==\<close> decides it; NaN equals nothing.\<close>

fun py_eq :: "pyval \<Rightarrow> pyval \<Rightarrow> bool" where
  "py_eq PNone PNone = True"
| "py_eq (PInt a) (PInt b) = (a = b)"
| "py_eq (PInt a) (PFloat (Fin r)) = (of_int a = r)"
| "py_eq (PFloat (Fin r)) (PInt b) = (r = of_int b)"
| "py_eq (PFloat a) (PFloat b) = (a = b \<and> a \<noteq> NaN)"
| "py_eq (PStr a) (PStr b) = (a = b)"
| "py_eq v w = False"

section \<open>EstadisticaBase: the statistics\<close>

definition msg_resumen :: string where
  "msg_resumen = ''Las clases hijas deben implementar el m'' @ e_acute @ ''todo resumen()''"

definition resumen_base :: "'a EstadisticaBase_scheme \<Rightarrow> pyerror + unit" where
  "resumen_base self = Inl (NotImplementedError msg_resumen)"

definition suma :: "'a EstadisticaBase_scheme \<Rightarrow> pyerror + pyval" where
  "suma self = sum_gen Inr (PInt 0) (datos self)"

definition media :: "'a EstadisticaBase_scheme \<Rightarrow> pyerror + pyfloat" where
  "media self =
     (let n = contar_datos self
      in if 0 < n
         then (case suma self of Inl err \<Rightarrow> Inl err | Inr s \<Rightarrow> py_truediv s n)
         else Inr NaN)"





text \<open>The squared deviation \<open>(valor - media) ** 2\<close> of one element.\<close>

definition sq_dev :: "pyfloat \<Rightarrow> pyval \<Rightarrow> pyerror + pyval" where
  "sq_dev m valor =
     (case py_sub_float valor m of
        Inl err \<Rightarrow> Inl err
      | Inr d \<Rightarrow> (case py_pow2 d of Inl err \<Rightarrow> Inl err | Inr q \<Rightarrow> Inr (PFloat q)))"

definition varianza :: "'a EstadisticaBase_scheme \<Rightarrow> pyerror + pyfloat" where
  "varianza self =
     (let n = contar_datos self
      in if n < 2 then Inr NaN
         else
           case media self of
             Inl err \<Rightarrow> Inl err
           | Inr m \<Rightarrow>
               (case sum_gen (sq_dev m) (PInt 0) (datos self) of
                  Inl err \<Rightarrow> Inl err
                | Inr suma_cuadrados \<Rightarrow> py_truediv suma_cuadrados (n - 1)))"

definition desviacion_estandar :: "'a EstadisticaBase_scheme \<Rightarrow> pyerror + pyfloat" where
  "desviacion_estandar self =
     (case varianza self of Inl err \<Rightarrow> Inl err | Inr v \<Rightarrow> Inr (fsqrt v))"

section \<open>The functions of the module \<open>base\<close> outside the class\<close>







definition coeficiente_variacion :: "'a EstadisticaBase_scheme \<Rightarrow> pyerror + pyfloat" where
  "coeficiente_variacion self =
     (case media self of
        Inl err \<Rightarrow> Inl err
      | Inr m \<Rightarrow>
          (case desviacion_estandar self of
             Inl err \<Rightarrow> Inl err
           | Inr desviacion \<Rightarrow>
               if isnan m \<or> isnan desviacion then Inr NaN
               else if m = Fin 0
                 then (if desviacion = Fin 0 then Inr (Fin 0) else Inr PInf)
               else Inr (fmul (fdiv desviacion m) (Fin 100))))"

section \<open>InferenciaEstadistica: the intervals\<close>

text \<open>
  What the code takes from outside the repository: the parser behind \<open>float(s)\<close> for a
  string (\<open>None\<close> when the text is no number), and the quantile functions
  \<open>scipy.stats.t.ppf\<close> and \<open>scipy.stats.norm.ppf\<close>.
\<close>

record pylib =
  float_of_str :: "string \<Rightarrow> pyfloat option"
  t_ppf :: "pyfloat \<Rightarrow> int \<Rightarrow> pyfloat"
  norm_ppf :: "pyfloat \<Rightarrow> pyfloat"

definition msg_float_none :: string where
  "msg_float_none =
     ''float() argument must be a string or a real number, not '' @ quoted ''NoneType''"

text \<open>\<open>Series.astype(float)\<close>: each element in order through \<open>float\<close>.\<close>

fun float_of_val :: "pylib \<Rightarrow> pyval \<Rightarrow> pyerror + pyval" where
  "float_of_val L PNone = Inl (TypeError msg_float_none)"
| "float_of_val L (PInt i) =
     (case float_of_int i of Inl err \<Rightarrow> Inl err | Inr f \<Rightarrow> Inr (PFloat f))"
| "float_of_val L (PFloat f) = Inr (PFloat f)"
| "float_of_val L (PStr s) =
     (case float_of_str L s of
        None \<Rightarrow> Inl (ValueError (''could not convert string to float: '' @ quoted s))
      | Some f \<Rightarrow> Inr (PFloat f))"

fun astype_float :: "pylib \<Rightarrow> pyval list \<Rightarrow> pyerror + pyval list" where
  "astype_float L [] = Inr []"
| "astype_float L (v # vs) =
     (case float_of_val L v of
        Inl err \<Rightarrow> Inl err
      | Inr f \<Rightarrow> (case astype_float L vs of Inl err \<Rightarrow> Inl err | Inr fs \<Rightarrow> Inr (f # fs)))"

text \<open>The default \<open>nivel_confianza=0.95\<close>: the float nearest to 95/100.\<close>

definition nivel_defecto :: pyfloat where
  "nivel_defecto = rnd (95 / 100)"

text \<open>\<open>1 - (1 - nivel_confianza) / 2\<close>.\<close>

definition probabilidad :: "pyfloat \<Rightarrow> pyfloat" where
  "probabilidad nivel = fsub (Fin 1) (fdiv (fsub (Fin 1) nivel) (Fin 2))"

definition msg_numericos :: string where
  "msg_numericos =
     ''Los datos deben ser num'' @ e_acute @ ''ricos para calcular el IC de la media.''"

text \<open>\<open>self._n ** 0.5\<close>.\<close>

definition raiz_n :: "nat \<Rightarrow> pyerror + pyfloat" where
  "raiz_n n = (case float_of_int (int n) of Inl err \<Rightarrow> Inl err | Inr f \<Rightarrow> Inr (fsqrt f))"

text \<open>The body of the \<open>try\<close> of \<open>intervalo_confianza_media\<close> and its \<open>except TypeError\<close>.\<close>

definition media_y_ds :: "'a EstadisticaBase_scheme \<Rightarrow> pyerror + pyfloat \<times> pyfloat" where
  "media_y_ds self =
     (case media self of
        Inl err \<Rightarrow> Inl err
      | Inr m \<Rightarrow>
          (case desviacion_estandar self of Inl err \<Rightarrow> Inl err | Inr ds \<Rightarrow> Inr (m, ds)))"

fun except_TypeError :: "pyerror \<Rightarrow> pyerror" where
  "except_TypeError (TypeError m) = TypeError msg_numericos"
| "except_TypeError err = err"

definition intervalo_confianza_media ::
  "pylib \<Rightarrow> 'a InferenciaEstadistica_scheme \<Rightarrow> pyfloat \<Rightarrow> pyerror + pyfloat \<times> pyfloat" where
  "intervalo_confianza_media L self nivel_confianza =
     (case astype_float L (obtener_datos self) of
        Inl err \<Rightarrow> Inl err
      | Inr datos_cuantitativos \<Rightarrow>
          (case media_y_ds self of
             Inl err \<Rightarrow> Inl (except_TypeError err)
           | Inr (m, ds) \<Rightarrow>
               let grados_libertad = int (n_inf self) - 1;
                   t_critico = t_ppf L (probabilidad nivel_confianza) grados_libertad
               in case raiz_n (n_inf self) of
                    Inl err \<Rightarrow> Inl err
                  | Inr r \<Rightarrow>
                      let error_estandar = fdiv ds r;
                          margen_error = fmul t_critico error_estandar
                      in Inr (fsub m margen_error, fadd m margen_error)))"

text \<open>
  \<open>(datos == valor_exito).sum()\<close>: the elementwise comparison of a Series is false at a
  missing element and against a missing value.
\<close>

definition conteo_exito :: "pyval list \<Rightarrow> pyval \<Rightarrow> nat" where
  "conteo_exito s valor_exito =
     length (filter (\<lambda>v. \<not> isna v \<and> \<not> isna valor_exito \<and> py_eq v valor_exito) s)"

definition intervalo_confianza_proporcion ::
  "pylib \<Rightarrow> 'a InferenciaEstadistica_scheme \<Rightarrow> pyval \<Rightarrow> pyfloat \<Rightarrow> pyfloat \<times> pyfloat" where
  "intervalo_confianza_proporcion L self valor_exito nivel_confianza =
     (let n = rnd (of_nat (n_inf self));
          p_hat = fdiv (rnd (of_nat (conteo_exito (obtener_datos self) valor_exito))) n;
          q_hat = fsub (Fin 1) p_hat;
          z_critico = norm_ppf L (probabilidad nivel_confianza);
          error_estandar = fsqrt (fdiv (fmul p_hat q_hat) n);
          margen_error = fmul z_critico error_estandar
      in (fsub p_hat margen_error, fadd p_hat margen_error))"

section \<open>InferenciaEstadistica: the summary\<close>

datatype resval = RInt int | RFloat pyfloat | RPair pyfloat pyfloat | RStr string

definition msg_no_aplicable :: string where
  "msg_no_aplicable = ''No aplicable (Datos no num'' @ e_acute @ ''ricos)''"

text \<open>The two \<open>except\<close> clauses of \<open>resumen\<close>, in their order.\<close>

fun except_resumen :: "pyerror \<Rightarrow> (string \<times> resval) list" where
  "except_resumen (TypeError m) = [(''IC Media'', RStr msg_no_aplicable)]"
| "except_resumen err = [(''IC Media'', RStr (''Error al calcular: '' @ message err))]"

text \<open>
  The dictionary is the list of its entries in insertion order. The key of the interval
  is \<open>f"IC Media ({int(0.95*100)}%)"\<close>, that is \<open>IC Media (95%)\<close>.
\<close>

definition resumen ::
  "pylib \<Rightarrow> 'a InferenciaEstadistica_scheme \<Rightarrow> pyerror + (string \<times> resval) list" where
  "resumen L self =
     (let res = [(''Conteo'', RInt (int (n_inf self)))]
      in case intervalo_confianza_media L self nivel_defecto of
           Inl err \<Rightarrow> Inr (res @ except_resumen err)
         | Inr (lo, hi) \<Rightarrow>
             (case media self of
                Inl err \<Rightarrow> Inr (res @ except_resumen err)
              | Inr m \<Rightarrow>
                  Inr (res @ [(''Media Muestral'', RFloat m),
                              (''IC Media (95%)'', RPair lo hi)])))"

section \<open>Where the names are defined\<close>










section \<open>Notions of the specification\<close>



text \<open>
  The interval for a proportion in the words of the specification, from the number of
  successes, the number of observations and the critical value.
\<close>

definition proporcion_formula :: "nat \<Rightarrow> nat \<Rightarrow> pyfloat \<Rightarrow> pyfloat \<times> pyfloat" where
  "proporcion_formula successes n z =
     (let p = fdiv (rnd (of_nat successes)) (rnd (of_nat n));
          q = fsub (Fin 1) p;
          margin = fmul z (fsqrt (fdiv (fmul p q) (rnd (of_nat n))))
      in (fsub p margin, fadd p margin))"

text \<open>A float that is a number and not negative; the upper infinity counts.\<close>

fun nonneg :: "pyfloat \<Rightarrow> bool" where
  "nonneg (Fin a) = (0 \<le> a)"
| "nonneg PInf = True"
| "nonneg f = False"


text \<open>
  A stand-in for the library, to evaluate the functions at concrete inputs: no string is
  a number, and both quantile functions return the critical value \<open>c\<close> at every
  probability.
\<close>

definition lib_fixed :: "real \<Rightarrow> pylib" where
  "lib_fixed c =
     \<lparr>float_of_str = (\<lambda>s. None), t_ppf = (\<lambda>p g. Fin c), norm_ppf = (\<lambda>p. Fin c)\<rparr>"







section \<open>Facts about the container\<close>

lemma length_pd_Series: "length (pd_Series xs) = length xs"
  by (simp add: pd_Series_def)

lemma isna_to_float64: "isna (to_float64 v) = isna v"
  by (cases v) (simp_all add: isna_def rnd_def Let_def)

lemma dropna_pd_Series: "length (dropna (pd_Series xs)) = length (dropna xs)"
proof -
  have "length (dropna (map to_float64 xs)) = length (dropna xs)"
    by (induction xs) (simp_all add: dropna_def isna_to_float64)
  then show ?thesis
    by (simp add: pd_Series_def)
qed

lemma length_dropna_le: "length (dropna xs) \<le> length xs"
  by (simp add: dropna_def)

lemma pd_Series_eq_Nil: "(pd_Series xs = []) = (xs = [])"
  using length_pd_Series [of xs] by (metis length_0_conv)

section \<open>Facts about the frequency table\<close>


















section \<open>Facts about rounding\<close>

lemma round_even_of_int: "round_even (of_int m) = m"
  by (simp add: round_even_def)

lemma powr_succ: "(2::real) powr (real_of_int k + 1) = 2 powi (k + 1)"
  using powr_real_of_int' [of 2 "k + 1"] by simp

lemma log2_bounds:
  assumes "x \<noteq> 0"
  shows "2 powi \<lfloor>log 2 \<bar>x\<bar>\<rfloor> \<le> \<bar>x\<bar> \<and> \<bar>x\<bar> < 2 powi (\<lfloor>log 2 \<bar>x\<bar>\<rfloor> + 1)"
proof -
  have "0 < \<bar>x\<bar>" using assms by simp
  from floor_log_eq_powr_iff [OF this, of 2 "\<lfloor>log 2 \<bar>x\<bar>\<rfloor>"]
  show ?thesis by (simp add: powr_real_of_int' powr_succ)
qed

lemma expo_unique:
  assumes "2 powi e \<le> \<bar>x\<bar>" "\<bar>x\<bar> < 2 powi (e + 1)"
  shows "\<lfloor>log 2 \<bar>x\<bar>\<rfloor> = e"
proof -
  have "(0::real) < 2 powi e" by simp
  with assms have "0 < \<bar>x\<bar>" by linarith
  from floor_log_eq_powr_iff [OF this, of 2 e] assms
  show ?thesis by (simp add: powr_real_of_int' powr_succ)
qed

lemma powi_mono: "m \<le> n \<Longrightarrow> (2::real) powi m \<le> 2 powi n"
  by (rule power_int_increasing) simp_all

lemma powi_less: "m < n \<Longrightarrow> (2::real) powi m < 2 powi n"
  by (rule power_int_strict_increasing) simp_all

lemma powi_diff: "(2::real) powi (m - n) = 2 powi m / 2 powi n"
  by (simp add: power_int_diff)

lemma powi_nonneg_int: "0 \<le> n \<Longrightarrow> (2::real) powi n = of_int (2 ^ nat n)"
  by (simp add: power_int_def)


lemma rnd_unfold:
  assumes "x \<noteq> 0" and "u = (2::real) powi (max \<lfloor>log 2 \<bar>x\<bar>\<rfloor> (- 1022) - 52)"
  shows "rnd x = (if huge \<le> \<bar>of_int (round_even (x / u)) * u\<bar>
                  then (if 0 < x then PInf else NInf)
                  else Fin (of_int (round_even (x / u)) * u))"
  unfolding assms(2) using assms(1) by (simp only: rnd_def Let_def if_False)

lemma rnd_exact:
  assumes x: "x = of_int k * 2 powi j" and k: "\<bar>k\<bar> \<le> 2 ^ 53" and j: "- 1074 \<le> j"
    and fin: "\<bar>x\<bar> < huge"
  shows "rnd x = Fin x"
proof (cases "x = 0")
  case True
  then show ?thesis by (simp add: rnd_def)
next
  case False
  define e0 where "e0 = \<lfloor>log 2 \<bar>x\<bar>\<rfloor>"
  define e where "e = max e0 (- 1022)"
  define u where "u = (2::real) powi (e - 52)"
  have upos: "0 < u" by (simp add: u_def)
  have lo: "2 powi e0 \<le> \<bar>x\<bar>" and hi: "\<bar>x\<bar> < 2 powi (e0 + 1)"
    using log2_bounds [OF False] by (simp_all add: e0_def)
  have absx: "\<bar>x\<bar> = of_int \<bar>k\<bar> * 2 powi j"
    by (simp add: x abs_mult)
  have "\<exists>m::int. x / u = of_int m"
  proof (cases "e - 52 \<le> j")
    case True
    have "x / u = of_int k * 2 powi (j - (e - 52))"
      by (simp add: x u_def power_int_diff)
    also have "2 powi (j - (e - 52)) = (of_int (2 ^ nat (j - (e - 52))) :: real)"
      using True by (simp add: power_int_def)
    finally have "x / u = of_int (k * 2 ^ nat (j - (e - 52)))"
      by simp
    then show ?thesis by blast
  next
    case F: False
    then have ee: "e = e0" and big: "j + 53 \<le> e0"
      using j by (auto simp: e_def max_def split: if_splits)
    have "2 powi (j + 53) \<le> (2::real) powi e0"
      using big by (rule powi_mono)
    also note lo
    finally have 1: "2 powi (j + 53) \<le> \<bar>x\<bar>" .
    have kr: "real_of_int \<bar>k\<bar> \<le> 2 ^ 53"
      using k by (metis of_int_le_iff of_int_numeral of_int_power)
    have "\<bar>x\<bar> \<le> 2 ^ 53 * 2 powi j"
      unfolding absx by (rule mult_right_mono [OF kr]) simp
    also have "\<dots> = 2 powi (j + 53)"
      by (simp add: power_int_add)
    finally have 2: "\<bar>x\<bar> = 2 powi (j + 53)"
      using 1 by simp
    have "e0 = j + 53"
      using expo_unique [of "j + 53" x] 2 powi_less [of "j + 53" "j + 53 + 1"]
      by (simp add: e0_def)
    then have "e - 52 = j + 1"
      by (simp add: ee)
    then have u: "u = 2 powi (j + 1)"
      by (simp only: u_def)
    have "of_int \<bar>k\<bar> * 2 powi j = (2::real) ^ 53 * 2 powi j"
      using 2 absx by (simp add: power_int_add)
    then have "real_of_int \<bar>k\<bar> = 2 ^ 53"
      by simp
    then have "\<bar>k\<bar> = 2 ^ 53"
      by (metis of_int_eq_iff of_int_numeral of_int_power)
    then have "even \<bar>k\<bar>"
      by simp
    then have "even k"
      by simp
    then have "k = 2 * (k div 2)"
      by simp
    then have "real_of_int k = 2 * of_int (k div 2)"
      by (metis of_int_mult of_int_numeral)
    then have "x / u = of_int (k div 2)"
      by (simp add: x u power_int_add)
    then show ?thesis by blast
  qed
  then obtain m :: int where m: "x / u = of_int m" by blast
  have y: "of_int (round_even (x / u)) * u = x"
    using m upos by (simp add: round_even_of_int field_simps)
  have "rnd x = (if huge \<le> \<bar>of_int (round_even (x / u)) * u\<bar>
                  then (if 0 < x then PInf else NInf)
                  else Fin (of_int (round_even (x / u)) * u))"
    by (rule rnd_unfold [OF False]) (simp only: u_def e_def e0_def)
  then show ?thesis
    unfolding y using fin by simp
qed

lemma rnd_of_int: "\<bar>i\<bar> \<le> 2 ^ 53 \<Longrightarrow> rnd (of_int i) = Fin (of_int i)"
proof (rule rnd_exact [where k = i and j = 0])
  assume a: "\<bar>i\<bar> \<le> 2 ^ 53"
  show "real_of_int i = real_of_int i * 2 powi 0" by simp
  show "\<bar>i\<bar> \<le> 2 ^ 53" by (rule a)
  show "- 1074 \<le> (0::int)" by simp
  have "\<bar>real_of_int i\<bar> \<le> 2 ^ 53"
    using a by (metis of_int_abs of_int_le_iff of_int_numeral of_int_power)
  also have "\<dots> < huge" unfolding huge_def by (rule power_strict_increasing) simp_all
  finally show "\<bar>real_of_int i\<bar> < huge" .
qed

lemma rnd_0: "rnd 0 = Fin 0"
  by (simp add: rnd_def)

lemma rnd_1: "rnd 1 = Fin 1"
  using rnd_of_int [of 1] by simp

lemma rnd_numeral: "numeral w \<le> (2::int) ^ 53 \<Longrightarrow> rnd (numeral w) = Fin (numeral w)"
  using rnd_of_int [of "numeral w"] by simp

lemma rnd_neg_numeral:
  "numeral w \<le> (2::int) ^ 53 \<Longrightarrow> rnd (- numeral w) = Fin (- numeral w)"
  using rnd_of_int [of "- numeral w"] by simp



lemma round_even_ge_floor: "\<lfloor>q\<rfloor> \<le> round_even q"
  by (simp add: round_even_def Let_def)

lemma round_even_le: "q \<le> of_int m \<Longrightarrow> round_even q \<le> m"
proof -
  assume a: "q \<le> of_int m"
  then have f: "\<lfloor>q\<rfloor> \<le> m" by (simp add: floor_le_iff)
  show ?thesis
  proof (cases "\<lfloor>q\<rfloor> = m")
    case True
    with a have "q = of_int m" by linarith
    then show ?thesis by (simp add: round_even_def)
  next
    case False
    with f have "\<lfloor>q\<rfloor> + 1 \<le> m" by simp
    then show ?thesis by (simp add: round_even_def Let_def)
  qed
qed

lemma round_even_ge: "of_int m \<le> q \<Longrightarrow> m \<le> round_even q"
proof -
  assume "of_int m \<le> q"
  then have "m \<le> \<lfloor>q\<rfloor>" by (simp add: le_floor_iff)
  with round_even_ge_floor [of q] show ?thesis by linarith
qed

lemma rnd_nonneg: "0 \<le> x \<Longrightarrow> nonneg (rnd x)"
proof (cases "x = 0")
  case True
  then show ?thesis by (simp add: rnd_0)
next
  case False
  assume "0 \<le> x"
  with False have pos: "0 < x" by simp
  define u where "u = (2::real) powi (max \<lfloor>log 2 \<bar>x\<bar>\<rfloor> (- 1022) - 52)"
  have upos: "0 < u" by (simp add: u_def)
  have "of_int 0 \<le> x / u" using pos upos by simp
  then have "0 \<le> round_even (x / u)" by (rule round_even_ge)
  then have y: "0 \<le> of_int (round_even (x / u)) * u" using upos by simp
  show ?thesis
    unfolding rnd_unfold [OF False u_def] using y pos by simp
qed

section \<open>Facts about the inference engine\<close>

lemma init_inferencia_n_inf:
  "init_inferencia d = Inr self \<Longrightarrow>
   n_inf self = n_observaciones self \<and> 2 \<le> n_observaciones self
   \<and> n_observaciones self = length (dropna (datos self))"
  by (cases d)
     (auto simp: init_inferencia_def obtener_n_observaciones_def Let_def new_base_def
                 EstadisticaBase.extend_def
           split: sum.splits if_splits)

section \<open>Facts about sums of numbers\<close>










section \<open>Facts about the variance\<close>




section \<open>Facts about the standard deviation\<close>

lemma fsqrt_cases: "fsqrt v = NaN \<or> nonneg (fsqrt v)"
proof (cases v)
  case (Fin a)
  then show ?thesis using rnd_nonneg [of "sqrt a"] by simp
qed simp_all

lemma desviacion_nonneg:
  "desviacion_estandar self = Inr d \<Longrightarrow> d = NaN \<or> nonneg d"
  using fsqrt_cases by (auto simp: desviacion_estandar_def split: sum.splits)

lemma nonneg_cases: "nonneg d \<Longrightarrow> d = PInf \<or> d = Fin 0 \<or> (\<exists>s. d = Fin s \<and> 0 < s)"
  by (cases d) auto

lemma sqrt_25: "sqrt 25 = 5"
  by (rule real_sqrt_unique) simp_all

lemma cv_000: "coeficiente_variacion (new_base [PInt 0, PInt 0, PInt 0]) = Inr (Fin 0)"
  by (simp add: coeficiente_variacion_def desviacion_estandar_def varianza_def
                contar_datos_def new_base_def media_def suma_def sq_dev_def
                float_of_int_def fsub_def isnan_def rnd_0 rnd_numeral)

lemma cv_055: "coeficiente_variacion (new_base [PInt 0, PInt 5, PInt (- 5)]) = Inr PInf"
  by (simp add: coeficiente_variacion_def desviacion_estandar_def varianza_def
                contar_datos_def new_base_def media_def suma_def sq_dev_def
                float_of_int_def fsub_def isnan_def rnd_0 rnd_numeral rnd_neg_numeral
                sqrt_25)

section \<open>Facts about the interval of a proportion\<close>

lemma rnd_dyadic:
  assumes "\<bar>k\<bar> \<le> 2 ^ 53" "n \<le> 1074"
  shows "rnd (of_int k / 2 ^ n) = Fin (of_int k / 2 ^ n)"
proof (rule rnd_exact [where k = k and j = "- int n"])
  show "real_of_int k / 2 ^ n = real_of_int k * 2 powi (- int n)"
    by (simp add: power_int_minus field_simps)
  show "\<bar>k\<bar> \<le> 2 ^ 53" by (rule assms)
  show "- 1074 \<le> - int n" using assms(2) by simp
  have kr: "\<bar>real_of_int k\<bar> \<le> 2 ^ 53"
    using assms(1) by (metis of_int_abs of_int_le_iff of_int_numeral of_int_power)
  have "\<bar>real_of_int k / 2 ^ n\<bar> = \<bar>real_of_int k\<bar> / 2 ^ n"
    by simp
  also have "\<dots> \<le> \<bar>real_of_int k\<bar>"
    by (simp add: field_simps mult_le_cancel_left1)
  also note kr
  also have "(2::real) ^ 53 < huge"
    unfolding huge_def by (rule power_strict_increasing) simp_all
  finally show "\<bar>real_of_int k / 2 ^ n\<bar> < huge" .
qed

lemma rnd_half: "rnd (1 / 2) = Fin (1 / 2)"
  using rnd_dyadic [of 1 1] by simp

lemma rnd_quarter: "rnd (1 / 4) = Fin (1 / 4)"
  using rnd_dyadic [of 1 2] by simp

lemma rnd_16th: "rnd (1 / 16) = Fin (1 / 16)"
  using rnd_dyadic [of 1 4] by simp

lemma rnd_5_8: "rnd (5 / 8) = Fin (5 / 8)"
  using rnd_dyadic [of 5 3] by simp

lemma rnd_9_8: "rnd (9 / 8) = Fin (9 / 8)"
  using rnd_dyadic [of 9 3] by simp

lemma rnd_m1_8: "rnd (- (1 / 8)) = Fin (- (1 / 8))"
  using rnd_dyadic [of "- 1" 3] by simp

lemma sqrt_16th: "sqrt (1 / 16) = 1 / 4"
  by (rule real_sqrt_unique) (simp_all add: power2_eq_square)

lemma rnd_of_nat: "n \<le> 2 ^ 53 \<Longrightarrow> rnd (of_nat n) = Fin (of_nat n)"
  using rnd_of_int [of "int n"] by simp

lemma py_eq_not_isna: "py_eq v w \<Longrightarrow> \<not> isna w \<Longrightarrow> \<not> isna v"
  by (cases v; cases w) (auto simp: isna_def)

lemma conteo_exito_all:
  assumes "\<not> isna valor" "\<forall>v \<in> set xs. py_eq v valor"
  shows "conteo_exito xs valor = length xs"
proof -
  have "filter (\<lambda>v. \<not> isna v \<and> \<not> isna valor \<and> py_eq v valor) xs = xs"
    using assms py_eq_not_isna by (auto simp: filter_id_conv)
  then show ?thesis by (simp add: conteo_exito_def)
qed

lemma proporcion_formula_all:
  assumes "0 < n" "n \<le> 2 ^ 53"
  shows "proporcion_formula n n (Fin z) = (Fin 1, Fin 1)"
    and "z' = PInf \<or> z' = NInf \<or> z' = NaN \<Longrightarrow> proporcion_formula n n z' = (NaN, NaN)"
proof -
  have n: "rnd (of_nat n) = Fin (of_nat n)" using assms(2) by (rule rnd_of_nat)
  have p: "fdiv (rnd (of_nat n)) (rnd (of_nat n)) = Fin 1"
    using assms(1) by (simp add: n rnd_1)
  have se: "fsqrt (fdiv (Fin 0) (rnd (of_nat n))) = Fin 0"
    using assms(1) by (simp add: n rnd_0)
  show "proporcion_formula n n (Fin z) = (Fin 1, Fin 1)"
    by (simp add: proporcion_formula_def p se Let_def fsub_def rnd_0 rnd_1)
  show "proporcion_formula n n z' = (NaN, NaN)" if "z' = PInf \<or> z' = NInf \<or> z' = NaN"
    using that by (auto simp: proporcion_formula_def p se Let_def fsub_def rnd_0)
qed


lemma proporcion_demo:
  "intervalo_confianza_proporcion (lib_fixed (5 / 2))
     \<lparr>datos = [PStr ''a'', PStr ''a'', PStr ''b'', PStr ''b''], n_observaciones = 4, n_inf = 4\<rparr>
     (PStr ''a'') nivel
   = (Fin (- (1 / 8)), Fin (9 / 8))"
  by (simp add: intervalo_confianza_proporcion_def obtener_datos_def conteo_exito_def
        isna_def lib_fixed_def Let_def fsub_def rnd_numeral rnd_half rnd_quarter rnd_16th
        sqrt_16th rnd_5_8 rnd_9_8 rnd_m1_8)

section \<open>Rounding keeps the order against a float\<close>






section \<open>The mean of three copies of 0.1\<close>











section \<open>Facts about the interval of the mean\<close>

















section \<open>Construction of the descriptive engine\<close>

text \<open>
  Claim C3, as the code has it. Construction on an empty list, on an empty tuple and on
  \<open>None\<close> fails with \<open>ValueError\<close>; an argument of any other unrecognised kind fails
  with \<open>TypeError\<close>; an engine built from a list or a tuple holds a non-empty sample of
  the same length; a \<open>pd.Series\<close> is taken as it is, whatever its length.
\<close>

theorem init_base_contract:
  "init_base (ArgList []) = Inl (ValueError msg_vacia)
   \<and> init_base (ArgTuple []) = Inl (ValueError msg_vacia)
   \<and> init_base ArgNone = Inl (ValueError msg_vacia)
   \<and> init_base ArgOther = Inl (TypeError msg_formato)
   \<and> (init_base (ArgList xs) = Inr b \<or> init_base (ArgTuple xs) = Inr b
         \<longrightarrow> datos b \<noteq> [] \<and> length (datos b) = length xs)
   \<and> init_base (ArgSeries s) = Inr (new_base s)"
  by (auto simp: new_base_def length_pd_Series pd_Series_eq_Nil split: if_splits)

theorem init_base_contract_witness:
  "init_base (ArgList [PInt 1]) = Inr (new_base [PInt 1])
   \<and> datos (new_base [PInt 1]) \<noteq> []"
  using init_base_contract [of "[PInt 1]" "new_base [PInt 1]"]
  by (simp add: pd_Series_def)

text \<open>
  Claim C3 as it is written fails twice: an empty \<open>pd.Series\<close> is accepted and gives an
  engine with an empty sample, and \<open>None\<close>, which is no container, fails with
  \<open>ValueError\<close> and not with \<open>TypeError\<close>.
\<close>

theorem init_base_empty_series_counterexample:
  "init_base (ArgSeries []) = Inr \<lparr>datos = [], n_observaciones = 0\<rparr>
   \<and> init_base ArgNone = Inl (ValueError msg_vacia)"
  by (simp add: new_base_def dropna_def)

section \<open>Construction of the inference engine\<close>

text \<open>
  Claim C10. \<open>InferenciaEstadistica.__init__\<close> first runs the base constructor, whose
  error it passes on; when the base constructor succeeds and fewer than 2 observations
  are not missing it fails with \<open>ValueError\<close>, and otherwise it succeeds and caches the
  count. In particular a sample of one element, or with one element not missing,
  always fails with that \<open>ValueError\<close>.
\<close>

theorem init_inferencia_requires_two:
  "(init_base d = Inl err \<longrightarrow> init_inferencia d = Inl err)
   \<and> (init_base d = Inr b \<and> length (dropna (datos b)) < 2
         \<longrightarrow> init_inferencia d = Inl (ValueError msg_dos))
   \<and> (init_base d = Inr b \<and> 2 \<le> length (dropna (datos b))
         \<longrightarrow> init_inferencia d
             = Inr (EstadisticaBase.extend b \<lparr>n_inf = length (dropna (datos b))\<rparr>))
   \<and> ((d = ArgList xs \<or> d = ArgTuple xs \<or> d = ArgSeries xs)
         \<and> (length xs = 1 \<or> length (dropna xs) = 1)
         \<longrightarrow> init_inferencia d = Inl (ValueError msg_dos))"
proof -
  have nobs: "init_base d = Inr b \<Longrightarrow> n_observaciones b = length (dropna (datos b))" for b
    by (cases d) (auto simp: new_base_def split: if_splits)
  have one: "length (dropna (pd_Series xs)) < 2 \<and> length (dropna xs) < 2"
    if "length xs = 1 \<or> length (dropna xs) = 1"
    using that length_dropna_le [of xs] by (auto simp: dropna_pd_Series)
  have ne: "xs \<noteq> []" if "length xs = 1 \<or> length (dropna xs) = 1"
    using that by (auto simp: dropna_def)
  show ?thesis
    using nobs one ne
    by (auto simp: init_inferencia_def obtener_n_observaciones_def Let_def new_base_def
             split: sum.splits)
qed

theorem init_inferencia_requires_two_witness:
  "init_inferencia (ArgList [PInt 5]) = Inl (ValueError msg_dos)
   \<and> init_inferencia (ArgList [PInt 5, PNone]) = Inl (ValueError msg_dos)
   \<and> init_inferencia ArgOther = Inl (TypeError msg_formato)
   \<and> init_inferencia (ArgList [PInt 5, PInt 6])
       = Inr \<lparr>datos = [PInt 5, PInt 6], n_observaciones = 2, n_inf = 2\<rparr>"
proof -
  have a: "init_inferencia (ArgList [PInt 5]) = Inl (ValueError msg_dos)"
    using init_inferencia_requires_two [of "ArgList [PInt 5]" _ _ "[PInt 5]"] by simp
  have b: "init_inferencia (ArgList [PInt 5, PNone]) = Inl (ValueError msg_dos)"
    using init_inferencia_requires_two [of "ArgList [PInt 5, PNone]" _ _ "[PInt 5, PNone]"]
    by (simp add: dropna_def isna_def)
  have c: "init_inferencia ArgOther = Inl (TypeError msg_formato)"
    using init_inferencia_requires_two [of ArgOther "TypeError msg_formato"] by simp
  have d: "init_inferencia (ArgList [PInt 5, PInt 6])
       = Inr \<lparr>datos = [PInt 5, PInt 6], n_observaciones = 2, n_inf = 2\<rparr>"
    using init_inferencia_requires_two
      [of "ArgList [PInt 5, PInt 6]" _ "new_base [PInt 5, PInt 6]"]
    by (simp add: pd_Series_def new_base_def dropna_def isna_def EstadisticaBase.extend_def)
  from a b c d show ?thesis by simp
qed

section \<open>The mode\<close>



section \<open>The summary of the inference engine\<close>

text \<open>
  Claim C4. \<open>resumen\<close> never raises: whatever the elements of the sample and whatever
  the library functions return, it returns a dictionary, and the dictionary holds the
  observation count under \<open>Conteo\<close>; for an engine that the constructor built, that
  count is the number of elements that are not missing.
\<close>

theorem resumen_never_raises:
  "(\<exists>res. resumen L self = Inr res
        \<and> map_of res ''Conteo'' = Some (RInt (int (n_inf self))))
   \<and> (init_inferencia d = Inr self \<longrightarrow>
        (\<exists>res. resumen L self = Inr res
           \<and> map_of res ''Conteo'' = Some (RInt (int (length (dropna (datos self)))))))"
proof -
  have 1: "\<exists>res. resumen L self = Inr res
        \<and> map_of res ''Conteo'' = Some (RInt (int (n_inf self)))"
    by (simp add: resumen_def Let_def split: sum.splits prod.splits)
  with init_inferencia_n_inf [of d self] show ?thesis by auto
qed

theorem resumen_never_raises_witness:
  "init_inferencia (ArgList [PStr ''x'', PStr ''y''])
     = Inr \<lparr>datos = [PStr ''x'', PStr ''y''], n_observaciones = 2, n_inf = 2\<rparr>
   \<and> (\<exists>res. resumen \<lparr>float_of_str = (\<lambda>s. None), t_ppf = (\<lambda>p g. Fin 2), norm_ppf = (\<lambda>p. Fin 2)\<rparr>
               \<lparr>datos = [PStr ''x'', PStr ''y''], n_observaciones = 2, n_inf = 2\<rparr> = Inr res
          \<and> map_of res ''Conteo'' = Some (RInt 2))"
proof -
  have c: "init_inferencia (ArgList [PStr ''x'', PStr ''y''])
     = Inr \<lparr>datos = [PStr ''x'', PStr ''y''], n_observaciones = 2, n_inf = 2\<rparr>"
    by (simp add: init_inferencia_def obtener_n_observaciones_def Let_def new_base_def
                  pd_Series_def dropna_def isna_def EstadisticaBase.extend_def)
  from resumen_never_raises
         [of "\<lparr>float_of_str = (\<lambda>s. None), t_ppf = (\<lambda>p g. Fin 2), norm_ppf = (\<lambda>p. Fin 2)\<rparr>"
             "\<lparr>datos = [PStr ''x'', PStr ''y''], n_observaciones = 2, n_inf = 2\<rparr>"
             "ArgList [PStr ''x'', PStr ''y'']"] c
  show ?thesis by (simp add: dropna_def isna_def)
qed

text \<open>
  Claim C1 fails on the code for the usual sample that is no number, a list of strings:
  \<open>astype(float)\<close> stands before the \<open>try\<close> of \<open>intervalo_confianza_media\<close> and raises
  \<open>ValueError\<close> on the first string that is no number, so \<open>resumen\<close> takes its second
  \<open>except\<close> clause and records the error message, not the marker
  \<open>No aplicable (Datos no num\<close>...\<open>ricos)\<close>. The engine built from \<open>["a", "b"]\<close> shows it.
\<close>

theorem resumen_strings_error_branch:
  "float_of_str L ''a'' = None \<longrightarrow>
   init_inferencia (ArgList [PStr ''a'', PStr ''b''])
     = Inr \<lparr>datos = [PStr ''a'', PStr ''b''], n_observaciones = 2, n_inf = 2\<rparr>
   \<and> resumen L \<lparr>datos = [PStr ''a'', PStr ''b''], n_observaciones = 2, n_inf = 2\<rparr>
     = Inr [(''Conteo'', RInt 2),
            (''IC Media'',
             RStr (''Error al calcular: could not convert string to float: '' @ quoted ''a''))]
   \<and> RStr (''Error al calcular: could not convert string to float: '' @ quoted ''a'')
       \<noteq> RStr msg_no_aplicable"
  by (simp add: init_inferencia_def obtener_n_observaciones_def Let_def new_base_def
                pd_Series_def dropna_def isna_def EstadisticaBase.extend_def
                resumen_def intervalo_confianza_media_def obtener_datos_def
                msg_no_aplicable_def)

theorem resumen_strings_error_branch_witness:
  "resumen \<lparr>float_of_str = (\<lambda>s. None), t_ppf = (\<lambda>p g. Fin 2), norm_ppf = (\<lambda>p. Fin 2)\<rparr>
           \<lparr>datos = [PStr ''a'', PStr ''b''], n_observaciones = 2, n_inf = 2\<rparr>
     = Inr [(''Conteo'', RInt 2),
            (''IC Media'',
             RStr (''Error al calcular: could not convert string to float: '' @ quoted ''a''))]"
  using resumen_strings_error_branch
          [of "\<lparr>float_of_str = (\<lambda>s. None), t_ppf = (\<lambda>p g. Fin 2), norm_ppf = (\<lambda>p. Fin 2)\<rparr>"]
  by simp

section \<open>Range and coefficient of variation are not methods\<close>


section \<open>The sample variance\<close>



section \<open>The coefficient of variation\<close>

text \<open>
  Claim C8. When the mean and the standard deviation are computed,
  \<open>coeficiente_variacion\<close> returns 0.0 if both are 0; plus infinity if the mean is 0 and
  the standard deviation is greater than 0; NaN if the mean or the standard deviation is
  NaN; and otherwise the standard deviation divided by the mean, times 100. A standard
  deviation is never negative, so "not 0" and "greater than 0" agree. On \<open>[0,0,0]\<close> the
  result is 0.0 and on \<open>[0,5,-5]\<close> it is plus infinity.
\<close>

theorem coeficiente_variacion_cases:
  "(media self = Inr m \<and> desviacion_estandar self = Inr d \<longrightarrow>
      (m = Fin 0 \<and> d = Fin 0 \<longrightarrow> coeficiente_variacion self = Inr (Fin 0))
    \<and> (m = Fin 0 \<and> (d = PInf \<or> (\<exists>s. d = Fin s \<and> 0 < s))
          \<longrightarrow> coeficiente_variacion self = Inr PInf)
    \<and> (m = NaN \<or> d = NaN \<longrightarrow> coeficiente_variacion self = Inr NaN)
    \<and> (m \<noteq> NaN \<and> d \<noteq> NaN \<and> m \<noteq> Fin 0
          \<longrightarrow> coeficiente_variacion self = Inr (fmul (fdiv d m) (Fin 100)))
    \<and> (d = NaN \<or> d = PInf \<or> d = Fin 0 \<or> (\<exists>s. d = Fin s \<and> 0 < s)))
   \<and> coeficiente_variacion (new_base [PInt 0, PInt 0, PInt 0]) = Inr (Fin 0)
   \<and> coeficiente_variacion (new_base [PInt 0, PInt 5, PInt (- 5)]) = Inr PInf"
proof -
  have shape: "d = NaN \<or> d = PInf \<or> d = Fin 0 \<or> (\<exists>s. d = Fin s \<and> 0 < s)"
    if "desviacion_estandar self = Inr d"
    using desviacion_nonneg [OF that] nonneg_cases [of d] by blast
  have body: "coeficiente_variacion self =
        (if m = NaN \<or> d = NaN then Inr NaN
         else if m = Fin 0 then (if d = Fin 0 then Inr (Fin 0) else Inr PInf)
         else Inr (fmul (fdiv d m) (Fin 100)))"
    if "media self = Inr m" "desviacion_estandar self = Inr d"
    using that by (simp add: coeficiente_variacion_def isnan_def)
  show ?thesis
    using shape body cv_000 cv_055 by auto
qed

theorem coeficiente_variacion_cases_witness:
  "media (new_base [PInt 0, PInt 5, PInt (- 5)]) = Inr (Fin 0)
   \<and> desviacion_estandar (new_base [PInt 0, PInt 5, PInt (- 5)]) = Inr (Fin 5)
   \<and> coeficiente_variacion (new_base [PInt 0, PInt 5, PInt (- 5)]) = Inr PInf
   \<and> media (new_base [PInt 2, PInt 2]) = Inr (Fin 2)
   \<and> desviacion_estandar (new_base [PInt 2, PInt 2]) = Inr (Fin 0)
   \<and> coeficiente_variacion (new_base [PInt 2, PInt 2]) = Inr (fmul (fdiv (Fin 0) (Fin 2)) (Fin 100))
   \<and> coeficiente_variacion (new_base [PInt 7]) = Inr NaN"
proof -
  let ?e = "new_base [PInt 0, PInt 5, PInt (- 5)]"
  have m: "media ?e = Inr (Fin 0)"
    by (simp add: new_base_def media_def suma_def contar_datos_def rnd_0)
  have d: "desviacion_estandar ?e = Inr (Fin 5)"
    by (simp add: desviacion_estandar_def varianza_def
                contar_datos_def new_base_def media_def suma_def sq_dev_def
                float_of_int_def fsub_def rnd_0 rnd_numeral rnd_neg_numeral sqrt_25)
  have c: "coeficiente_variacion ?e = Inr PInf"
    using coeficiente_variacion_cases [of ?e "Fin 0" "Fin 5"] m d by simp
  let ?f = "new_base [PInt 2, PInt 2]"
  have m2: "media ?f = Inr (Fin 2)"
    by (simp add: new_base_def media_def suma_def contar_datos_def rnd_numeral)
  have d2: "desviacion_estandar ?f = Inr (Fin 0)"
    by (simp add: desviacion_estandar_def varianza_def
                contar_datos_def new_base_def media_def suma_def sq_dev_def
                float_of_int_def fsub_def rnd_0 rnd_numeral rnd_1)
  have c2: "coeficiente_variacion ?f = Inr (fmul (fdiv (Fin 0) (Fin 2)) (Fin 100))"
    using coeficiente_variacion_cases [of ?f "Fin 2" "Fin 0"] m2 d2 by simp
  let ?g = "new_base [PInt 7]"
  have m3: "media ?g = Inr (Fin 7)"
    by (simp add: new_base_def media_def suma_def contar_datos_def rnd_numeral)
  have d3: "desviacion_estandar ?g = Inr NaN"
    by (simp add: desviacion_estandar_def varianza_def contar_datos_def new_base_def)
  have c3: "coeficiente_variacion ?g = Inr NaN"
    using coeficiente_variacion_cases [of ?g "Fin 7" NaN] m3 d3 by simp
  from m d c m2 d2 c2 c3 show ?thesis by blast
qed

section \<open>The confidence interval of a proportion\<close>

text \<open>
  Claim C5, as the code has it. \<open>intervalo_confianza_proporcion\<close> returns the interval
  of the specification: with \<open>p\<close> the number of elements equal to \<open>valor_exito\<close> divided
  by \<open>n\<close>, \<open>q = 1 - p\<close> and the margin the critical value of the standard Normal
  distribution at \<open>1 - (1 - nivel_confianza) / 2\<close> times the root of \<open>p * q / n\<close>, the pair
  \<open>(p - margin, p + margin)\<close>. The pair is not clamped to the unit interval: with the
  critical value 2.5 and 2 successes among 4 it is \<open>(-0.125, 1.125)\<close>. On a sample in
  which every one of the \<open>n\<close> elements equals \<open>valor_exito\<close> (for \<open>n\<close> up to \<open>2 ^ 53\<close>),
  \<open>p\<close> is 1, \<open>q\<close> is 0 and the margin is 0, so the interval is \<open>(1, 1)\<close> for every finite
  critical value, and \<open>(NaN, NaN)\<close> for an infinite or undefined one.
\<close>

theorem proporcion_interval:
  "intervalo_confianza_proporcion L self valor nivel
     = proporcion_formula (conteo_exito (datos self) valor) (n_inf self)
         (norm_ppf L (probabilidad nivel))
   \<and> (\<not> isna valor \<and> (\<forall>v \<in> set (datos self). \<not> isna v) \<longrightarrow>
        conteo_exito (datos self) valor
          = length (filter (\<lambda>v. py_eq v valor) (datos self)))
   \<and> (\<not> isna valor \<and> (\<forall>v \<in> set (datos self). py_eq v valor)
        \<and> n_inf self = length (datos self) \<and> 0 < n_inf self \<and> n_inf self \<le> 2 ^ 53 \<longrightarrow>
        (norm_ppf L (probabilidad nivel) = Fin z \<longrightarrow>
           intervalo_confianza_proporcion L self valor nivel = (Fin 1, Fin 1))
        \<and> (norm_ppf L (probabilidad nivel) \<in> {PInf, NInf, NaN} \<longrightarrow>
           intervalo_confianza_proporcion L self valor nivel = (NaN, NaN)))
   \<and> intervalo_confianza_proporcion (lib_fixed (5 / 2))
        \<lparr>datos = [PStr ''a'', PStr ''a'', PStr ''b'', PStr ''b''],
           n_observaciones = 4, n_inf = 4\<rparr>
        (PStr ''a'') nivel
      = (Fin (- (1 / 8)), Fin (9 / 8))"
proof -
  have f: "intervalo_confianza_proporcion L self valor nivel
     = proporcion_formula (conteo_exito (datos self) valor) (n_inf self)
         (norm_ppf L (probabilidad nivel))"
    by (simp add: intervalo_confianza_proporcion_def proporcion_formula_def
                  obtener_datos_def Let_def)
  have c: "conteo_exito (datos self) valor
          = length (filter (\<lambda>v. py_eq v valor) (datos self))"
    if "\<not> isna valor" "\<forall>v \<in> set (datos self). \<not> isna v"
  proof -
    have "filter (\<lambda>v. \<not> isna v \<and> \<not> isna valor \<and> py_eq v valor) (datos self)
          = filter (\<lambda>v. py_eq v valor) (datos self)"
      using that by (auto intro: filter_cong)
    then show ?thesis by (simp add: conteo_exito_def)
  qed
  have a: "(norm_ppf L (probabilidad nivel) = Fin z \<longrightarrow>
           intervalo_confianza_proporcion L self valor nivel = (Fin 1, Fin 1))
        \<and> (norm_ppf L (probabilidad nivel) \<in> {PInf, NInf, NaN} \<longrightarrow>
           intervalo_confianza_proporcion L self valor nivel = (NaN, NaN))"
    if h: "\<not> isna valor" "\<forall>v \<in> set (datos self). py_eq v valor"
      "n_inf self = length (datos self)" "0 < n_inf self" "n_inf self \<le> 2 ^ 53"
  proof -
    have "conteo_exito (datos self) valor = n_inf self"
      using conteo_exito_all [OF h(1) h(2)] h(3) by simp
    then have "intervalo_confianza_proporcion L self valor nivel
      = proporcion_formula (n_inf self) (n_inf self) (norm_ppf L (probabilidad nivel))"
      using f by simp
    with proporcion_formula_all [OF h(4) h(5)] show ?thesis by auto
  qed
  from f c a proporcion_demo show ?thesis by blast
qed

theorem proporcion_interval_witness:
  "intervalo_confianza_proporcion (lib_fixed 3)
     \<lparr>datos = [PInt 1, PInt 1], n_observaciones = 2, n_inf = 2\<rparr> (PInt 1) nivel_defecto
   = (Fin 1, Fin 1)
   \<and> conteo_exito [PInt 1, PInt 1] (PInt 1) = 2"
proof -
  let ?e = "\<lparr>datos = [PInt 1, PInt 1], n_observaciones = 2, n_inf = 2\<rparr>"
  have h: "\<not> isna (PInt 1) \<and> (\<forall>v \<in> set (datos ?e). py_eq v (PInt 1))
        \<and> n_inf ?e = length (datos ?e) \<and> 0 < n_inf ?e \<and> n_inf ?e \<le> 2 ^ 53"
    by (simp add: isna_def)
  have z: "norm_ppf (lib_fixed 3) (probabilidad nivel_defecto) = Fin 3"
    by (simp add: lib_fixed_def)
  have h2: "\<not> isna (PInt 1) \<and> (\<forall>v \<in> set (datos ?e). \<not> isna v)"
    by (simp add: isna_def)
  from proporcion_interval [of "lib_fixed 3" ?e "PInt 1" nivel_defecto 3] h z
  have 1: "intervalo_confianza_proporcion (lib_fixed 3) ?e (PInt 1) nivel_defecto = (Fin 1, Fin 1)"
    by blast
  from proporcion_interval [of "lib_fixed 3" ?e "PInt 1" nivel_defecto 3] h2
  have "conteo_exito (datos ?e) (PInt 1) = length (filter (\<lambda>v. py_eq v (PInt 1)) (datos ?e))"
    by blast
  then have 2: "conteo_exito [PInt 1, PInt 1] (PInt 1) = 2" by simp
  from 1 2 show ?thesis by blast
qed

text \<open>
  Claim C5 as it is written says that on a sample where every element equals the
  success value the margin may push the upper bound above 1. It cannot: three equal
  elements with the critical value 1.96 give exactly \<open>(1, 1)\<close>.
\<close>

theorem proporcion_all_success_counterexample:
  "intervalo_confianza_proporcion (lib_fixed (196 / 100))
     \<lparr>datos = [PStr ''F'', PStr ''F'', PStr ''F''], n_observaciones = 3, n_inf = 3\<rparr>
     (PStr ''F'') nivel_defecto
   = (Fin 1, Fin 1)"
  by (simp add: intervalo_confianza_proporcion_def obtener_datos_def conteo_exito_def
        isna_def lib_fixed_def Let_def fsub_def rnd_numeral rnd_0 rnd_1)

section \<open>The confidence interval of the mean on identical values\<close>




end
